theory Spec2Isabelle
  imports Main "HOL-Library.AList"
begin

section \<open>Element trees\<close>

text \<open>
  An element of \<^verbatim>\<open>xml.etree.ElementTree\<close>: its tag, its attribute dictionary (an
  association list in insertion order, one entry per key), its text, its tail and its
  children in document order.
\<close>

datatype element =
  Element (tag: string) (attrib: "(string \<times> string) list") (etext: "string option")
    (tail: "string option") (children: "element list")

text \<open>\<^verbatim>\<open>parent.append(child)\<close>: the child becomes the last child.\<close>

definition append_child :: "element \<Rightarrow> element \<Rightarrow> element" where
  "append_child parent child =
     Element (tag parent) (attrib parent) (etext parent) (tail parent) (children parent @ [child])"

text \<open>\<^verbatim>\<open>del child.attrib[k]\<close>, for a key that is present.\<close>

definition del_attrib :: "string \<Rightarrow> element \<Rightarrow> element" where
  "del_attrib k e = Element (tag e) (AList.delete k (attrib e)) (etext e) (tail e) (children e)"

section \<open>Python built-ins used by the script\<close>

text \<open>\<^verbatim>\<open>f"{i}"\<close> for an integer: its decimal digits, with a minus sign below zero.\<close>

fun str_nat :: "nat \<Rightarrow> string" where
  "str_nat n =
     (if n < 10 then [''0123456789'' ! n]
      else str_nat (n div 10) @ [''0123456789'' ! (n mod 10)])"

declare str_nat.simps [simp del]

definition format_int :: "int \<Rightarrow> string" where
  "format_int i = (if i < 0 then CHR ''-'' # str_nat (nat (- i)) else str_nat (nat i))"

text \<open>
  \<^verbatim>\<open>range(start, stop, step)\<close> as the list it iterates over. Python raises ValueError for
  a step of zero; the script only calls it with the literal step 100, and the model
  yields the empty list there.
\<close>

function py_range :: "int \<Rightarrow> int \<Rightarrow> int \<Rightarrow> int list" where
  "py_range start stop step =
     (if 0 < step \<and> start < stop then start # py_range (start + step) stop step
      else if step < 0 \<and> stop < start then start # py_range (start + step) stop step
      else [])"
  by pat_completeness auto
termination
  by (relation "measure (\<lambda>(start, stop, step).
        if 0 < step then nat (stop - start) else nat (start - stop))") auto

declare py_range.simps [simp del]

section \<open>\<^verbatim>\<open>os.path\<close> on a POSIX system\<close>

text \<open>\<^verbatim>\<open>p.rfind(c)\<close>: the last index of the character, or -1.\<close>

definition rfind :: "char \<Rightarrow> string \<Rightarrow> int" where
  "rfind c p = int (length (dropWhile (\<lambda>x. x \<noteq> c) (rev p))) - 1"

text \<open>\<^verbatim>\<open>i = p.rfind('/') + 1; return p[i:]\<close>\<close>

definition basename :: "string \<Rightarrow> string" where
  "basename p = drop (nat (rfind CHR ''/'' p + 1)) p"

text \<open>
  \<^verbatim>\<open>i = p.rfind('/') + 1; head = p[:i]\<close>, and the trailing slashes of the head are
  stripped unless it consists of slashes only.
\<close>

definition dirname :: "string \<Rightarrow> string" where
  "dirname p =
     (let head = take (nat (rfind CHR ''/'' p + 1)) p in
      if head \<noteq> [] \<and> head \<noteq> replicate (length head) CHR ''/''
      then rev (dropWhile (\<lambda>x. x = CHR ''/'') (rev head)) else head)"

text \<open>\<^verbatim>\<open>os.path.join(a, *p)\<close>: an absolute component restarts the path.\<close>

definition join_step :: "string \<Rightarrow> string \<Rightarrow> string" where
  "join_step path b =
     (if b \<noteq> [] \<and> hd b = CHR ''/'' then b
      else if path = [] \<or> last path = CHR ''/'' then path @ b
      else path @ CHR ''/'' # b)"

definition join :: "string \<Rightarrow> string list \<Rightarrow> string" where
  "join a p = foldl join_step a p"

text \<open>
  \<^verbatim>\<open>os.path.splitext(p)[0]\<close>: the path is cut at its last dot when that dot lies after
  the last slash and the file name has a character other than a dot before it.
\<close>

definition splitext_root :: "string \<Rightarrow> string" where
  "splitext_root p =
     (let sepIndex = rfind CHR ''/'' p; dotIndex = rfind CHR ''.'' p in
      if dotIndex > sepIndex \<and>
         list_ex (\<lambda>x. x \<noteq> CHR ''.'')
           (take (nat (dotIndex - (sepIndex + 1))) (drop (nat (sepIndex + 1)) p))
      then take (nat dotIndex) p else p)"

section \<open>The packager object\<close>

record ModulePackager =
  template_path :: string
  font_path :: string
  font_file_name :: string
  base_font_xml_path :: string
  font_name :: string

text \<open>\<^verbatim>\<open>ModulePackager.__init__\<close>\<close>

definition init :: "string \<Rightarrow> string \<Rightarrow> string \<Rightarrow> string \<Rightarrow> ModulePackager" where
  "init template_path' font_path' base_font_xml_path' font_name' =
     \<lparr> template_path = template_path', font_path = font_path',
       font_file_name = basename font_path',
       base_font_xml_path = base_font_xml_path', font_name = font_name' \<rparr>"

section \<open>The transform of the font configuration\<close>

text \<open>
  The element that \<^verbatim>\<open>ElementTree.fromstring\<close> returns for the literal of lines 36 to 51:
  the family's text and the tails of its fonts are the white space between the tags
  (a line break and eight blanks, four after the last font).
\<close>

definition empty_font :: "string \<Rightarrow> string \<Rightarrow> string \<Rightarrow> string \<Rightarrow> element" where
  "empty_font weight style file_name white =
     Element ''font'' [(''weight'', weight), (''style'', style)] (Some file_name) (Some white) []"

definition sans_serif_family :: element where
  "sans_serif_family =
     Element ''family'' [(''name'', ''sans-serif'')] (Some ''\<newline>        '') None
       [empty_font ''100'' ''normal'' ''EmptyFont-Thin.ttf'' ''\<newline>        '',
        empty_font ''100'' ''italic'' ''EmptyFont-ThinItalic.ttf'' ''\<newline>        '',
        empty_font ''300'' ''normal'' ''EmptyFont-Light.ttf'' ''\<newline>        '',
        empty_font ''300'' ''italic'' ''EmptyFont-LightItalic.ttf'' ''\<newline>        '',
        empty_font ''400'' ''normal'' ''EmptyFont-Regular.ttf'' ''\<newline>        '',
        empty_font ''400'' ''italic'' ''EmptyFont-Italic.ttf'' ''\<newline>        '',
        empty_font ''500'' ''normal'' ''EmptyFont-Medium.ttf'' ''\<newline>        '',
        empty_font ''500'' ''italic'' ''EmptyFont-MediumItalic.ttf'' ''\<newline>        '',
        empty_font ''900'' ''normal'' ''EmptyFont-Black.ttf'' ''\<newline>        '',
        empty_font ''900'' ''italic'' ''EmptyFont-BlackItalic.ttf'' ''\<newline>        '',
        empty_font ''700'' ''normal'' ''EmptyFont-Bold.ttf'' ''\<newline>        '',
        empty_font ''700'' ''italic'' ''EmptyFont-BoldItalic.ttf'' ''\<newline>    '']"

text \<open>
  One turn of the loops of lines 57 to 60 and 70 to 73: a font element of weight
  \<open>i\<close> and style normal, its text the font's file name, appended to the family.
\<close>

definition font_face :: "string \<Rightarrow> int \<Rightarrow> element" where
  "font_face file_name i =
     Element ''font'' [(''weight'', format_int i), (''style'', ''normal'')] (Some file_name) None []"

definition add_font :: "string \<Rightarrow> element \<Rightarrow> int \<Rightarrow> element" where
  "add_font file_name family i = append_child family (font_face file_name i)"

definition custom_family :: "string \<Rightarrow> element" where
  "custom_family file_name =
     foldl (add_font file_name) (Element ''family'' [] None None []) (py_range 100 1000 100)"

definition family_with_lang :: "string \<Rightarrow> element" where
  "family_with_lang file_name =
     foldl (add_font file_name) (Element ''family'' [(''lang'', ''zh-Hans'')] None None [])
       (py_range 100 1000 100)"

text \<open>
  The body of the loop of lines 64 to 76, on the pair of the new root and the flag
  \<^verbatim>\<open>family_with_lang_inserted\<close>.
\<close>

definition visit_child :: "string \<Rightarrow> element \<times> bool \<Rightarrow> element \<Rightarrow> element \<times> bool" where
  "visit_child file_name st child =
     (let (familyset, inserted) = st in
      if tag child = ''family'' then
        let child1 =
              (if map_of (attrib child) ''name'' = Some ''sans-serif''
               then del_attrib ''name'' child else child)
        in if map_of (attrib child1) ''lang'' \<noteq> None \<and> \<not> inserted
           then (append_child (append_child familyset (family_with_lang file_name)) child1, True)
           else (append_child familyset child1, inserted)
      else (append_child familyset child, inserted))"

text \<open>
  Lines 30 to 76 of \<^verbatim>\<open>__parse_font_xml\<close>: the tree \<^verbatim>\<open>familyset\<close> built from the root of
  the parsed base document.
\<close>

definition build_familyset :: "string \<Rightarrow> element \<Rightarrow> element" where
  "build_familyset file_name root =
     (let familyset = Element ''familyset'' [(''version'', ''23'')] None None [];
          familyset = append_child familyset sans_serif_family;
          familyset = append_child familyset (custom_family file_name)
      in fst (foldl (visit_child file_name) (familyset, False) (children root)))"

section \<open>Effects: the file system, the console and exceptions\<close>

text \<open>
  An exception is a value: \<open>ParseError\<close> of \<^verbatim>\<open>ElementTree.parse\<close>, \<open>OSError\<close> (with its
  subclasses) of the file operations, \<open>SystemExit\<close> of \<^verbatim>\<open>exit\<close>.
\<close>

datatype error = ParseError | OSError | SystemExit int

text \<open>
  The operations the script asks of the system, in the order it attempts them. Closing
  a file at the end of a \<^verbatim>\<open>with open\<close> block is not recorded as an operation of its own.
\<close>

datatype event =
    Print string
  | TemporaryDirectory string
  | Copytree string string
  | Copy string string
  | Open string
  | Write string string
  | Parse string
  | MakeArchive string string
  | Cleanup string
  | GetLogin

text \<open>
  The trace: every operation attempted so far with its outcome (\<open>None\<close> when it
  returned, the exception when it raised).
\<close>

type_synonym trace = "(event \<times> error option) list"

text \<open>
  What the script cannot decide: which paths exist, where it is installed, the names
  the system hands out, which operation raises (given all that happened before), what
  the base document parses to, and how a tree is serialised and pretty-printed
  (lines 77 to 80).
\<close>

record os_env =
  path_exists :: "string \<Rightarrow> bool"
  this_file :: string
  gettempdir :: string
  mkdtemp :: string
  getlogin :: string
  raises :: "trace \<Rightarrow> event \<Rightarrow> error option"
  parse :: "string \<Rightarrow> error + element"
  pretty :: "element \<Rightarrow> string"

type_synonym 'a io = "trace \<Rightarrow> (error + 'a) \<times> trace"

definition return_io :: "'a \<Rightarrow> 'a io" where
  "return_io x tr = (Inr x, tr)"

definition raise_io :: "error \<Rightarrow> 'a io" where
  "raise_io e tr = (Inl e, tr)"

definition bind_io :: "'a io \<Rightarrow> ('a \<Rightarrow> 'b io) \<Rightarrow> 'b io" where
  "bind_io m f tr = (case m tr of (Inl e, tr') \<Rightarrow> (Inl e, tr') | (Inr x, tr') \<Rightarrow> f x tr')"

definition perform :: "os_env \<Rightarrow> event \<Rightarrow> unit io" where
  "perform env ev tr =
     (case raises env tr ev of
        Some e \<Rightarrow> (Inl e, tr @ [(ev, Some e)])
      | None \<Rightarrow> (Inr (), tr @ [(ev, None)]))"

definition say :: "string \<Rightarrow> unit io" where
  "say s tr = (Inr (), tr @ [(Print s, None)])"

text \<open>
  \<^verbatim>\<open>with tempfile.TemporaryDirectory() as temp\<close>: the directory is removed on every way
  out of the block.
\<close>

definition with_temporary_directory :: "os_env \<Rightarrow> (string \<Rightarrow> 'a io) \<Rightarrow> 'a io" where
  "with_temporary_directory env body tr =
     (case perform env (TemporaryDirectory (mkdtemp env)) tr of
        (Inl e, tr1) \<Rightarrow> (Inl e, tr1)
      | (Inr _, tr1) \<Rightarrow>
          (case body (mkdtemp env) tr1 of
             (r, tr2) \<Rightarrow> (r, tr2 @ [(Cleanup (mkdtemp env), None)])))"

text \<open>Lines 26 to 81, \<^verbatim>\<open>__parse_font_xml\<close>.\<close>

definition parse_font_xml :: "os_env \<Rightarrow> ModulePackager \<Rightarrow> string io" where
  "parse_font_xml env self tr =
     (case parse env (base_font_xml_path self) of
        Inl e \<Rightarrow> (Inl e, tr @ [(Parse (base_font_xml_path self), Some e)])
      | Inr root \<Rightarrow>
          (Inr (pretty env (build_familyset (font_file_name self) root)),
           tr @ [(Parse (base_font_xml_path self), None)]))"

text \<open>The loop of lines 90 and 91.\<close>

fun write_props :: "os_env \<Rightarrow> string \<Rightarrow> (string \<times> string) list \<Rightarrow> unit io" where
  "write_props env file [] = return_io ()"
| "write_props env file ((k, v) # kwargs) =
     bind_io (perform env (Write file (k @ ''='' @ v @ ''\<newline>'')))
       (\<lambda>_. write_props env file kwargs)"

text \<open>Lines 83 to 103, \<^verbatim>\<open>package_module\<close>.\<close>

definition package_module :: "os_env \<Rightarrow> ModulePackager \<Rightarrow> (string \<times> string) list \<Rightarrow> string io" where
  "package_module env self kwargs =
     with_temporary_directory env (\<lambda>temp.
       let cwd = join temp [basename (template_path self)] in
       bind_io (perform env (Copytree (template_path self) cwd)) (\<lambda>_.
       bind_io (perform env (Copy (font_path self) (join cwd [''system'', ''fonts'']))) (\<lambda>_.
       let module_prop_file = join cwd [''module.prop''] in
       bind_io (perform env (Open module_prop_file)) (\<lambda>_.
       bind_io (write_props env module_prop_file kwargs) (\<lambda>_.
       let font_xml_path = join cwd [''system'', ''etc'', ''fonts.xml''] in
       bind_io (perform env (Open font_xml_path)) (\<lambda>_.
       bind_io (parse_font_xml env self) (\<lambda>content.
       bind_io (perform env (Write font_xml_path content)) (\<lambda>_.
       let dest_zip_name = join (gettempdir env) [font_name self] in
       bind_io (perform env (MakeArchive dest_zip_name cwd)) (\<lambda>_.
       return_io (dest_zip_name @ ''.zip''))))))))))"

text \<open>The parsed command line: \<^verbatim>\<open>--font-config\<close>, \<^verbatim>\<open>--font\<close> (required), \<^verbatim>\<open>--font-name\<close>.\<close>

record config =
  arg_font_config :: "string option"
  arg_font :: string
  arg_font_name :: "string option"

text \<open>Truth of an optional string: neither \<^verbatim>\<open>None\<close> nor empty.\<close>

definition truthy :: "string option \<Rightarrow> bool" where
  "truthy x = (case x of None \<Rightarrow> False | Some s \<Rightarrow> s \<noteq> [])"

text \<open>Lines 127 to 162, \<^verbatim>\<open>main\<close> after the arguments are parsed.\<close>

definition main :: "os_env \<Rightarrow> config \<Rightarrow> unit io" where
  "main env config =
     (let cwd = dirname (this_file env);
          font_xml_path = join cwd [''template'', ''system'', ''etc'', ''fonts.xml''];
          font_xml_path =
            (if truthy (arg_font_config config) then the (arg_font_config config)
             else font_xml_path)
      in
      bind_io (if \<not> path_exists env font_xml_path then say ''Font config file not exists!''
               else return_io ()) (\<lambda>_.
      if arg_font config = [] \<or> \<not> path_exists env (arg_font config) then
        bind_io (say ''No font file set or font file not exists!'') (\<lambda>_.
        raise_io (SystemExit (- 1)))
      else
        let template_path = join cwd [''template''];
            font_name =
              (if truthy (arg_font_name config) then the (arg_font_name config)
               else splitext_root (basename (arg_font config)))
        in
        bind_io (perform env GetLogin) (\<lambda>_.
        let module_props =
              [(''id'', font_name), (''name'', font_name), (''version'', ''1.0''),
               (''versionCode'', ''1''), (''author'', getlogin env),
               (''description'', ''Replace default font with '' @ font_name)];
            module_packager = init template_path (arg_font config) font_xml_path font_name
        in
        bind_io (package_module env module_packager module_props) (\<lambda>zip_file.
        perform env (Copy zip_file cwd)))))"

section \<open>Notions used to state the properties\<close>

text \<open>A family element, and a family element that carries a \<open>lang\<close> attribute.\<close>

definition is_family :: "element \<Rightarrow> bool" where
  "is_family e = (tag e = ''family'')"

definition lang_family :: "element \<Rightarrow> bool" where
  "lang_family e = (tag e = ''family'' \<and> map_of (attrib e) ''lang'' \<noteq> None)"

text \<open>What the loop appends for a child: the child, without its name when it is the sans-serif family.\<close>

definition strip_sans_serif :: "element \<Rightarrow> element" where
  "strip_sans_serif e =
     (if tag e = ''family'' \<and> map_of (attrib e) ''name'' = Some ''sans-serif''
      then del_attrib ''name'' e else e)"

text \<open>
  The elements the loop appends for a list of children, from a given value of the flag:
  the children in order, with the language family before the first family that carries
  \<open>lang\<close> when the flag is not yet set.
\<close>

definition emitted :: "string \<Rightarrow> bool \<Rightarrow> element list \<Rightarrow> element list" where
  "emitted file_name inserted cs =
     (if inserted then map strip_sans_serif cs
      else map strip_sans_serif (takeWhile (\<lambda>c. \<not> lang_family c) cs) @
           (case dropWhile (\<lambda>c. \<not> lang_family c) cs of
              [] \<Rightarrow> []
            | c # rest \<Rightarrow> family_with_lang file_name # map strip_sans_serif (c # rest)))"

text \<open>Where the child of index \<open>i\<close> of the base document stands among the children of the output.\<close>

definition out_index :: "element list \<Rightarrow> nat \<Rightarrow> nat" where
  "out_index cs i = 2 + i + (if list_ex lang_family (take (Suc i) cs) then 1 else 0)"

text \<open>
  Small base documents for the examples: a sans-serif family alone and followed by a
  Japanese family, a document whose first \<open>lang\<close> stands on an element that is not a
  family, one with two sans-serif families, and one whose sans-serif family carries
  \<open>lang\<close>.
\<close>

definition doc_sans_ja :: element where
  "doc_sans_ja =
     Element ''familyset'' [(''version'', ''23'')] None None
       [Element ''family'' [(''name'', ''sans-serif'')] None None [],
        Element ''family'' [(''lang'', ''ja'')] None None []]"

definition doc_sans :: element where
  "doc_sans =
     Element ''familyset'' [(''version'', ''23'')] None None
       [Element ''family'' [(''name'', ''sans-serif'')] None None []]"

definition doc_alias_ja :: element where
  "doc_alias_ja =
     Element ''familyset'' [(''version'', ''23'')] None None
       [Element ''alias'' [(''name'', ''emoji''), (''lang'', ''und-Zsye'')] None None [],
        Element ''family'' [(''lang'', ''ja'')] None None []]"

definition doc_two_sans :: element where
  "doc_two_sans =
     Element ''familyset'' [(''version'', ''23'')] None None
       [Element ''family'' [(''name'', ''sans-serif'')] None None [],
        Element ''family'' [(''lang'', ''ja'')] None None [],
        Element ''family'' [(''name'', ''sans-serif''), (''variant'', ''compact'')] None None []]"

definition doc_sans_lang :: element where
  "doc_sans_lang =
     Element ''familyset'' [(''version'', ''23'')] None None
       [Element ''family'' [(''name'', ''serif'')] None None [],
        Element ''family'' [(''name'', ''sans-serif''), (''lang'', ''ko'')] None None [],
        Element ''family'' [(''lang'', ''ja'')] None None []]"

text \<open>
  The naming scheme of the placeholder files, after the pattern
  \<^verbatim>\<open>EmptyFont-<WeightName><StyleSuffix>.ttf\<close> of the specification: the weight names and
  the style suffixes are those of the fallback family's files, and the file of weight 400
  in italic leaves the weight name out.
\<close>

definition spec_weight_name :: "string \<Rightarrow> string" where
  "spec_weight_name w =
     (if w = ''100'' then ''Thin'' else if w = ''300'' then ''Light''
      else if w = ''400'' then ''Regular'' else if w = ''500'' then ''Medium''
      else if w = ''700'' then ''Bold'' else if w = ''900'' then ''Black'' else [])"

definition spec_style_suffix :: "string \<Rightarrow> string" where
  "spec_style_suffix s = (if s = ''italic'' then ''Italic'' else [])"

definition spec_placeholder :: "string \<Rightarrow> string \<Rightarrow> string" where
  "spec_placeholder w s =
     (if w = ''400'' \<and> s = ''italic'' then ''EmptyFont-Italic.ttf''
      else ''EmptyFont-'' @ spec_weight_name w @ spec_style_suffix s @ ''.ttf'')"

text \<open>A staging directory was asked for; an archive was asked for.\<close>

definition staging_started :: "trace \<Rightarrow> bool" where
  "staging_started tr =
     list_ex (\<lambda>(ev, r). case ev of TemporaryDirectory t \<Rightarrow> True | _ \<Rightarrow> False) tr"

definition archive_written :: "trace \<Rightarrow> bool" where
  "archive_written tr =
     list_ex (\<lambda>(ev, r). case ev of MakeArchive b d \<Rightarrow> True | _ \<Rightarrow> False) tr"

text \<open>
  The operations of \<^verbatim>\<open>package_module\<close> that come before the archive: the staging
  directory, the copy of the template, the copy of the font, \<^verbatim>\<open>module.prop\<close> and its
  lines, and \<^verbatim>\<open>fonts.xml\<close> with the transformed document.
\<close>

definition staging_steps ::
  "os_env \<Rightarrow> ModulePackager \<Rightarrow> (string \<times> string) list \<Rightarrow> element \<Rightarrow> event list" where
  "staging_steps env self kwargs root =
     (let cwd = join (mkdtemp env) [basename (template_path self)] in
      [TemporaryDirectory (mkdtemp env),
       Copytree (template_path self) cwd,
       Copy (font_path self) (join cwd [''system'', ''fonts'']),
       Open (join cwd [''module.prop''])] @
      map (\<lambda>(k, v). Write (join cwd [''module.prop'']) (k @ ''='' @ v @ ''\<newline>'')) kwargs @
      [Open (join cwd [''system'', ''etc'', ''fonts.xml'']),
       Parse (base_font_xml_path self),
       Write (join cwd [''system'', ''etc'', ''fonts.xml''])
         (pretty env (build_familyset (font_file_name self) root))])"

text \<open>
  A system where the script is installed under \<^verbatim>\<open>/opt/module\<close>, the bundled
  configuration and the font \<^verbatim>\<open>/sdcard/MyFont.ttf\<close> exist, no operation raises and the
  base document parses; and the same system with a malformed base document.
\<close>

definition env_ok :: os_env where
  "env_ok =
     \<lparr> path_exists = (\<lambda>p. p = ''/opt/module/template/system/etc/fonts.xml'' \<or>
                          p = ''/sdcard/MyFont.ttf''),
       this_file = ''/opt/module/package.py'',
       gettempdir = ''/tmp'',
       mkdtemp = ''/tmp/tmpk3x9'',
       getlogin = ''user'',
       raises = (\<lambda>tr ev. None),
       parse = (\<lambda>p. Inr doc_sans_ja),
       pretty = (\<lambda>e. tag e) \<rparr>"

definition env_malformed :: os_env where
  "env_malformed = env_ok \<lparr> parse := (\<lambda>p. Inl ParseError) \<rparr>"

text \<open>
  The same system asked for a font that does not exist, where the copy of the font
  raises; and asked for \<^verbatim>\<open>/sdcard/fonts\<close>, which exists but is a directory, so that
  \<^verbatim>\<open>os.path.exists\<close> holds and the copy raises as well.
\<close>

definition env_missing_font :: os_env where
  "env_missing_font =
     env_ok \<lparr> raises := (\<lambda>tr ev. case ev of
         Copy src dst \<Rightarrow> if src = ''/sdcard/Missing.ttf'' then Some OSError else None
       | _ \<Rightarrow> None) \<rparr>"

definition env_font_directory :: os_env where
  "env_font_directory =
     env_ok \<lparr> path_exists := (\<lambda>p. p = ''/opt/module/template/system/etc/fonts.xml'' \<or>
                                  p = ''/sdcard/fonts''),
              raises := (\<lambda>tr ev. case ev of
         Copy src dst \<Rightarrow> if src = ''/sdcard/fonts'' then Some OSError else None
       | _ \<Rightarrow> None) \<rparr>"

section \<open>Properties of the transform\<close>

lemma py_range_weights: "py_range 100 1000 100 = [100, 200, 300, 400, 500, 600, 700, 800, 900]"
  by (simp add: py_range.simps)

lemma format_int_weights:
  "map format_int [100, 200, 300, 400, 500, 600, 700, 800, 900] =
     [''100'', ''200'', ''300'', ''400'', ''500'', ''600'', ''700'', ''800'', ''900'']"
  by (simp add: format_int_def str_nat.simps)

lemma foldl_add_font:
  "foldl (add_font f) family is =
     Element (tag family) (attrib family) (etext family) (tail family)
       (children family @ map (font_face f) is)"
  by (induction "is" arbitrary: family) (simp_all add: add_font_def append_child_def)

lemma custom_family_eq:
  "custom_family f =
     Element ''family'' [] None None
       (map (font_face f) [100, 200, 300, 400, 500, 600, 700, 800, 900])"
  unfolding custom_family_def foldl_add_font by (simp add: py_range_weights)

lemma family_with_lang_eq:
  "family_with_lang f =
     Element ''family'' [(''lang'', ''zh-Hans'')] None None
       (map (font_face f) [100, 200, 300, 400, 500, 600, 700, 800, 900])"
  unfolding family_with_lang_def foldl_add_font by (simp add: py_range_weights)

lemma lang_after_strip:
  "map_of (attrib (del_attrib ''name'' c)) ''lang'' = map_of (attrib c) ''lang''"
  by (simp add: del_attrib_def)

lemma visit_child_eq:
  "visit_child f (fs, ins) c =
     (Element (tag fs) (attrib fs) (etext fs) (tail fs)
        (children fs @
           (if lang_family c \<and> \<not> ins then [family_with_lang f, strip_sans_serif c]
            else [strip_sans_serif c])),
      ins \<or> lang_family c)"
  by (auto simp add: visit_child_def Let_def lang_family_def strip_sans_serif_def
      append_child_def lang_after_strip)

lemma emitted_Cons:
  "emitted f ins (c # cs) =
     (if lang_family c \<and> \<not> ins then [family_with_lang f, strip_sans_serif c]
      else [strip_sans_serif c]) @ emitted f (ins \<or> lang_family c) cs"
  by (simp add: emitted_def)

lemma foldl_visit_child:
  "foldl (visit_child f) (fs, ins) cs =
     (Element (tag fs) (attrib fs) (etext fs) (tail fs) (children fs @ emitted f ins cs),
      ins \<or> list_ex lang_family cs)"
proof (induction cs arbitrary: fs ins)
  case Nil
  show ?case by (simp add: emitted_def)
next
  case (Cons c cs)
  show ?case
    unfolding foldl_Cons visit_child_eq Cons.IH emitted_Cons by simp
qed

lemma children_build_familyset:
  "children (build_familyset f root) =
     sans_serif_family # custom_family f # emitted f False (children root)"
  by (simp add: build_familyset_def Let_def append_child_def foldl_visit_child)

lemma is_family_strip: "is_family (strip_sans_serif c) = is_family c"
  by (simp add: is_family_def strip_sans_serif_def del_attrib_def)

lemma is_family_inserted:
  "is_family sans_serif_family" "is_family (custom_family f)" "is_family (family_with_lang f)"
  by (simp_all add: is_family_def sans_serif_family_def custom_family_eq family_with_lang_eq)

lemma families_emitted:
  "length (filter is_family (emitted f ins cs)) =
     length (filter is_family cs) + (if \<not> ins \<and> list_ex lang_family cs then 1 else 0)"
proof (induction cs arbitrary: ins)
  case Nil
  show ?case by (simp add: emitted_def)
next
  case (Cons c cs)
  show ?case
    unfolding emitted_Cons filter_append length_append Cons.IH
    by (simp add: is_family_strip is_family_inserted)
qed

text \<open>
  C1, as the code has it: the output has the N family children of the base document and
  the two families appended first (the fallback and the custom family), N + 2, and one more,
  N + 3, when a family child of the base document carries a \<open>lang\<close> attribute.
\<close>

theorem family_count:
  "length (filter is_family (children (build_familyset f root))) =
     length (filter is_family (children root)) +
       (if list_ex lang_family (children root) then 3 else 2)"
  by (simp add: children_build_familyset families_emitted is_family_inserted)

theorem family_count_witness:
  "length (filter is_family (children (build_familyset ''MyFont.ttf'' doc_sans_ja))) = 5 \<and>
   length (filter is_family (children (build_familyset ''MyFont.ttf'' doc_sans))) = 3"
  using family_count [of "''MyFont.ttf''" doc_sans_ja] family_count [of "''MyFont.ttf''" doc_sans]
  by (simp add: doc_sans_ja_def doc_sans_def is_family_def lang_family_def)

text \<open>
  The counts N + 1 and N + 2 of the claim fail: a document with one family and no
  \<open>lang\<close> gives 3 families, and a document with two families, one with \<open>lang\<close>, gives 5.
\<close>

theorem family_count_counterexample:
  "length (filter is_family (children doc_sans)) = 1 \<and>
   \<not> list_ex (\<lambda>c. map_of (attrib c) ''lang'' \<noteq> None) (children doc_sans) \<and>
   length (filter is_family (children (build_familyset ''MyFont.ttf'' doc_sans))) \<noteq> 1 + 1 \<and>
   length (filter is_family (children doc_sans_ja)) = 2 \<and>
   list_ex (\<lambda>c. map_of (attrib c) ''lang'' \<noteq> None) (children doc_sans_ja) \<and>
   length (filter is_family (children (build_familyset ''MyFont.ttf'' doc_sans_ja))) \<noteq> 2 + 2"
  by (simp add: children_build_familyset families_emitted is_family_inserted [unfolded is_family_def]
      doc_sans_ja_def doc_sans_def is_family_def lang_family_def)

lemma emitted_True: "emitted f True cs = map strip_sans_serif cs"
  by (simp add: emitted_def)

lemma emitted_no_lang:
  "\<not> list_ex lang_family cs \<Longrightarrow> emitted f False cs = map strip_sans_serif cs"
  by (induction cs) (simp_all add: emitted_Cons emitted_def)

lemma emitted_split:
  "\<not> list_ex lang_family pre \<Longrightarrow> lang_family c \<Longrightarrow>
   emitted f False (pre @ c # post) =
     map strip_sans_serif pre @ family_with_lang f # strip_sans_serif c # map strip_sans_serif post"
  by (induction pre) (simp_all add: emitted_Cons emitted_True)

lemma length_emitted:
  "length (emitted f ins cs) = length cs + (if \<not> ins \<and> list_ex lang_family cs then 1 else 0)"
proof (induction cs arbitrary: ins)
  case Nil
  show ?case by (simp add: emitted_def)
next
  case (Cons c cs)
  show ?case unfolding emitted_Cons length_append Cons.IH by simp
qed

lemma emitted_nth:
  "i < length cs \<Longrightarrow>
   emitted f False cs ! (i + (if list_ex lang_family (take (Suc i) cs) then 1 else 0)) =
     strip_sans_serif (cs ! i)"
proof (induction cs arbitrary: i)
  case Nil
  then show ?case by simp
next
  case (Cons c cs)
  show ?case
  proof (cases "lang_family c")
    case True
    then show ?thesis using Cons.prems
      by (cases i) (simp_all add: emitted_Cons emitted_True)
  next
    case False
    show ?thesis
    proof (cases i)
      case 0
      then show ?thesis using False by (simp add: emitted_Cons)
    next
      case (Suc j)
      then have "j < length cs" using Cons.prems by simp
      from Cons.IH [OF this] show ?thesis using False Suc
        by (simp add: emitted_Cons)
    qed
  qed
qed

lemma build_familyset_nth:
  "i < length (children root) \<Longrightarrow>
   children (build_familyset f root) ! out_index (children root) i =
     strip_sans_serif (children root ! i)"
  using emitted_nth [of i "children root" f]
  by (simp add: children_build_familyset out_index_def)

lemma out_index_less:
  "i < length (children root) \<Longrightarrow>
   out_index (children root) i < length (children (build_familyset f root))"
proof -
  assume i: "i < length (children root)"
  have "list_ex lang_family (take (Suc i) (children root)) \<Longrightarrow> list_ex lang_family (children root)"
    by (auto simp add: list_ex_iff dest: in_set_takeD)
  then show ?thesis using i
    by (auto simp add: children_build_familyset out_index_def length_emitted)
qed

text \<open>
  C2, as the code has it: when no family child of the base document carries \<open>lang\<close>,
  nothing is inserted and the output is the two appended families and the children in
  order; otherwise exactly one family with \<open>lang="zh-Hans"\<close> is inserted, immediately
  before the first family child that carries \<open>lang\<close>.
\<close>

theorem lang_family_insertion:
  "(\<not> list_ex lang_family (children root) \<longrightarrow>
      children (build_familyset f root) =
        sans_serif_family # custom_family f # map strip_sans_serif (children root)) \<and>
   (\<forall>pre c post.
      children root = pre @ c # post \<and> \<not> list_ex lang_family pre \<and> lang_family c \<longrightarrow>
      children (build_familyset f root) =
        sans_serif_family # custom_family f # map strip_sans_serif pre @
          family_with_lang f # strip_sans_serif c # map strip_sans_serif post) \<and>
   tag (family_with_lang f) = ''family'' \<and>
   attrib (family_with_lang f) = [(''lang'', ''zh-Hans'')]"
  by (simp add: children_build_familyset emitted_no_lang emitted_split family_with_lang_eq)

theorem lang_family_insertion_witness:
  "children (build_familyset ''MyFont.ttf'' doc_sans) =
     [sans_serif_family, custom_family ''MyFont.ttf'', Element ''family'' [] None None []] \<and>
   children (build_familyset ''MyFont.ttf'' doc_sans_ja) =
     [sans_serif_family, custom_family ''MyFont.ttf'', Element ''family'' [] None None [],
      family_with_lang ''MyFont.ttf'', Element ''family'' [(''lang'', ''ja'')] None None []]"
proof -
  have a: "\<not> list_ex lang_family (children doc_sans)"
    by (simp add: doc_sans_def lang_family_def)
  have b: "children doc_sans_ja =
      [Element ''family'' [(''name'', ''sans-serif'')] None None []] @
      Element ''family'' [(''lang'', ''ja'')] None None [] # [] \<and>
      \<not> list_ex lang_family [Element ''family'' [(''name'', ''sans-serif'')] None None []] \<and>
      lang_family (Element ''family'' [(''lang'', ''ja'')] None None [])"
    by (simp add: doc_sans_ja_def lang_family_def)
  from lang_family_insertion [of doc_sans "''MyFont.ttf''"] a
  have 1: "children (build_familyset ''MyFont.ttf'' doc_sans) =
        sans_serif_family # custom_family ''MyFont.ttf'' # map strip_sans_serif (children doc_sans)"
    by blast
  from lang_family_insertion [of doc_sans_ja "''MyFont.ttf''"] b
  have 2: "children (build_familyset ''MyFont.ttf'' doc_sans_ja) =
        sans_serif_family # custom_family ''MyFont.ttf'' #
          map strip_sans_serif [Element ''family'' [(''name'', ''sans-serif'')] None None []] @
          family_with_lang ''MyFont.ttf'' #
          strip_sans_serif (Element ''family'' [(''lang'', ''ja'')] None None []) #
          map strip_sans_serif []"
    by blast
  show ?thesis
    unfolding 1 2 by (simp add: doc_sans_def strip_sans_serif_def del_attrib_def)
qed

text \<open>
  The first child that carries \<open>lang\<close> need not be a family: before an \<open>alias\<close> with
  \<open>lang\<close> nothing is inserted, the language family stands before the family after it.
\<close>

theorem lang_family_insertion_counterexample:
  "find (\<lambda>c. map_of (attrib c) ''lang'' \<noteq> None) (children doc_alias_ja) =
     Some (Element ''alias'' [(''name'', ''emoji''), (''lang'', ''und-Zsye'')] None None []) \<and>
   children (build_familyset ''MyFont.ttf'' doc_alias_ja) =
     [sans_serif_family, custom_family ''MyFont.ttf'',
      Element ''alias'' [(''name'', ''emoji''), (''lang'', ''und-Zsye'')] None None [],
      family_with_lang ''MyFont.ttf'',
      Element ''family'' [(''lang'', ''ja'')] None None []] \<and>
   custom_family ''MyFont.ttf'' \<noteq> family_with_lang ''MyFont.ttf''"
  by (simp add: children_build_familyset doc_alias_ja_def emitted_def lang_family_def
      strip_sans_serif_def custom_family_eq family_with_lang_eq)

text \<open>
  C3: every family child of the base document whose name is \<open>sans-serif\<close>, whatever
  its position, stands in the output without the name attribute; its other attributes
  (in their order), its tag, text, tail and children are as before.
\<close>

theorem sans_serif_name_stripped:
  assumes "i < length (children root)"
    and "tag (children root ! i) = ''family''"
    and "map_of (attrib (children root ! i)) ''name'' = Some ''sans-serif''"
  shows "out_index (children root) i < length (children (build_familyset f root)) \<and>
    children (build_familyset f root) ! out_index (children root) i =
      Element (tag (children root ! i))
        (filter (\<lambda>(k, v). k \<noteq> ''name'') (attrib (children root ! i)))
        (etext (children root ! i)) (tail (children root ! i)) (children (children root ! i)) \<and>
    map_of (attrib (children (build_familyset f root) ! out_index (children root) i)) ''name'' = None \<and>
    (\<forall>k. k \<noteq> ''name'' \<longrightarrow>
       map_of (attrib (children (build_familyset f root) ! out_index (children root) i)) k =
       map_of (attrib (children root ! i)) k)"
proof -
  let ?c = "children root ! i"
  have out: "children (build_familyset f root) ! out_index (children root) i = del_attrib ''name'' ?c"
    using build_familyset_nth [OF assms(1), of f] assms(2,3)
    by (simp add: strip_sans_serif_def)
  have del: "AList.delete ''name'' (attrib ?c) = filter (\<lambda>(k, v). k \<noteq> ''name'') (attrib ?c)"
    by (auto simp add: AList.delete_eq intro!: filter_cong)
  show ?thesis
    unfolding out
    using out_index_less [OF assms(1), of f]
    by (simp add: del_attrib_def del [symmetric] AList.delete_conv)
qed

theorem sans_serif_name_stripped_witness:
  "children (build_familyset ''MyFont.ttf'' doc_two_sans) ! 2 =
     Element ''family'' [] None None [] \<and>
   children (build_familyset ''MyFont.ttf'' doc_two_sans) ! 5 =
     Element ''family'' [(''variant'', ''compact'')] None None []"
proof -
  have a: "0 < length (children doc_two_sans)" "tag (children doc_two_sans ! 0) = ''family''"
    "map_of (attrib (children doc_two_sans ! 0)) ''name'' = Some ''sans-serif''"
    by (simp_all add: doc_two_sans_def)
  have b: "2 < length (children doc_two_sans)" "tag (children doc_two_sans ! 2) = ''family''"
    "map_of (attrib (children doc_two_sans ! 2)) ''name'' = Some ''sans-serif''"
    by (simp_all add: doc_two_sans_def)
  have i0: "out_index (children doc_two_sans) 0 = 2"
    by (simp add: out_index_def doc_two_sans_def lang_family_def)
  have i2: "out_index (children doc_two_sans) 2 = 5"
    by (simp add: out_index_def doc_two_sans_def lang_family_def)
  from sans_serif_name_stripped [OF a, of "''MyFont.ttf''"] sans_serif_name_stripped [OF b, of "''MyFont.ttf''"]
  show ?thesis
    unfolding i0 i2 by (simp add: doc_two_sans_def)
qed

lemma basename_MyFont: "basename ''MyFont.ttf'' = ''MyFont.ttf''"
  by (simp add: basename_def rfind_def)

lemma basename_path_MyFont: "basename ''/sdcard/fonts/MyFont.ttf'' = ''MyFont.ttf''"
  by (simp add: basename_def rfind_def)

text \<open>
  C4: the second child of the output is the custom family: a family without attributes
  (so without name and lang) whose children are nine fonts, of weights 100 to 900 in
  steps of 100 and style normal, the text of each being the base name of the font path
  the packager was created with.
\<close>

theorem custom_family_faces:
  "children (build_familyset (font_file_name (init template font base_xml name)) root) ! 1 =
     Element ''family'' [] None None
       (map (\<lambda>w. Element ''font'' [(''weight'', w), (''style'', ''normal'')]
                 (Some (basename font)) None [])
          [''100'', ''200'', ''300'', ''400'', ''500'', ''600'', ''700'', ''800'', ''900'']) \<and>
   length (children
     (children (build_familyset (font_file_name (init template font base_xml name)) root) ! 1)) = 9 \<and>
   map_of (attrib
     (children (build_familyset (font_file_name (init template font base_xml name)) root) ! 1))
     ''name'' = None \<and>
   map_of (attrib
     (children (build_familyset (font_file_name (init template font base_xml name)) root) ! 1))
     ''lang'' = None"
  by (simp add: children_build_familyset init_def custom_family_eq font_face_def format_int_def
      str_nat.simps)

theorem custom_family_faces_witness:
  "map (\<lambda>e. (tag e, attrib e, etext e))
     (children (children (build_familyset
        (font_file_name (init ''template'' ''/sdcard/fonts/MyFont.ttf'' ''fonts.xml'' ''MyFont''))
        doc_sans_ja) ! 1)) =
   [(''font'', [(''weight'', ''100''), (''style'', ''normal'')], Some ''MyFont.ttf''),
    (''font'', [(''weight'', ''200''), (''style'', ''normal'')], Some ''MyFont.ttf''),
    (''font'', [(''weight'', ''300''), (''style'', ''normal'')], Some ''MyFont.ttf''),
    (''font'', [(''weight'', ''400''), (''style'', ''normal'')], Some ''MyFont.ttf''),
    (''font'', [(''weight'', ''500''), (''style'', ''normal'')], Some ''MyFont.ttf''),
    (''font'', [(''weight'', ''600''), (''style'', ''normal'')], Some ''MyFont.ttf''),
    (''font'', [(''weight'', ''700''), (''style'', ''normal'')], Some ''MyFont.ttf''),
    (''font'', [(''weight'', ''800''), (''style'', ''normal'')], Some ''MyFont.ttf''),
    (''font'', [(''weight'', ''900''), (''style'', ''normal'')], Some ''MyFont.ttf'')]"
  using custom_family_faces [of "''template''" "''/sdcard/fonts/MyFont.ttf''" "''fonts.xml''"
      "''MyFont''" doc_sans_ja]
  by (simp add: basename_path_MyFont)

text \<open>
  C5: for a base document of one family named \<open>sans-serif\<close> followed by one family with
  \<open>lang="ja"\<close> (whatever their text, tails and fonts) and the font file \<open>MyFont.ttf\<close>, the
  children of the output are, in this order, the fallback family, the custom family, the
  first family without its name, the inserted \<open>zh-Hans\<close> family and the \<open>ja\<close> family.
\<close>

theorem example_order:
  "children (build_familyset (font_file_name (init template ''MyFont.ttf'' base_xml name))
     (Element ''familyset'' version text0 tail0
        [Element ''family'' [(''name'', ''sans-serif'')] text1 tail1 fonts1,
         Element ''family'' [(''lang'', ''ja'')] text2 tail2 fonts2])) =
   [sans_serif_family,
    custom_family ''MyFont.ttf'',
    Element ''family'' [] text1 tail1 fonts1,
    family_with_lang ''MyFont.ttf'',
    Element ''family'' [(''lang'', ''ja'')] text2 tail2 fonts2]"
  by (simp add: children_build_familyset init_def basename_MyFont emitted_def lang_family_def
      strip_sans_serif_def del_attrib_def)

theorem example_order_witness:
  "map (\<lambda>e. (tag e, attrib e))
     (children (build_familyset (font_file_name (init ''template'' ''MyFont.ttf'' ''fonts.xml'' ''MyFont''))
        doc_sans_ja)) =
   [(''family'', [(''name'', ''sans-serif'')]), (''family'', []), (''family'', []),
    (''family'', [(''lang'', ''zh-Hans'')]), (''family'', [(''lang'', ''ja'')])]"
  using example_order [of "''template''" "''fonts.xml''" "''MyFont''" "[(''version'', ''23'')]"
      None None None None "[]" None None "[]"]
  by (simp add: doc_sans_ja_def sans_serif_family_def custom_family_eq family_with_lang_eq)

text \<open>
  C10: a family child that carries both \<open>name="sans-serif"\<close> and \<open>lang\<close>, met while the
  flag is still unset (no family before it carries \<open>lang\<close>): one turn of the loop appends
  the \<open>zh-Hans\<close> family and then the child without its name, and sets the flag; in the
  output the two stand next to each other, after the children before and ahead of the
  children after. The inserted element is a family whose only attribute is
  \<open>lang="zh-Hans"\<close>, with the nine fonts of the custom family; the child keeps its
  \<open>lang\<close>.
\<close>

theorem sans_serif_lang_child:
  assumes "children root = pre @ c # post"
    and "\<not> list_ex lang_family pre"
    and "tag c = ''family''"
    and "map_of (attrib c) ''name'' = Some ''sans-serif''"
    and "map_of (attrib c) ''lang'' \<noteq> None"
  shows "snd (foldl (visit_child f) (familyset, False) pre) = False \<and>
    visit_child f (familyset', False) c =
      (append_child (append_child familyset' (family_with_lang f)) (del_attrib ''name'' c), True) \<and>
    children (build_familyset f root) =
      sans_serif_family # custom_family f # map strip_sans_serif pre @
        [family_with_lang f, del_attrib ''name'' c] @ map strip_sans_serif post \<and>
    tag (family_with_lang f) = ''family'' \<and>
    attrib (family_with_lang f) = [(''lang'', ''zh-Hans'')] \<and>
    children (family_with_lang f) = children (custom_family f) \<and>
    length (children (family_with_lang f)) = 9 \<and>
    map_of (attrib (del_attrib ''name'' c)) ''name'' = None \<and>
    map_of (attrib (del_attrib ''name'' c)) ''lang'' = map_of (attrib c) ''lang''"
proof -
  have lang: "lang_family c" using assms(3,5) by (simp add: lang_family_def)
  have inserted: "tag (family_with_lang f) = ''family''"
    "attrib (family_with_lang f) = [(''lang'', ''zh-Hans'')]"
    "children (family_with_lang f) = children (custom_family f)"
    "length (children (family_with_lang f)) = 9"
    by (simp_all add: family_with_lang_eq custom_family_eq)
  have strip: "strip_sans_serif c = del_attrib ''name'' c"
    using assms(3,4) by (simp add: strip_sans_serif_def)
  have flag: "snd (foldl (visit_child f) (familyset, False) pre) = False"
    using assms(2) by (simp add: foldl_visit_child)
  have step: "visit_child f (familyset', False) c =
      (append_child (append_child familyset' (family_with_lang f)) (del_attrib ''name'' c), True)"
    using lang strip by (simp add: visit_child_eq append_child_def)
  have out: "children (build_familyset f root) =
      sans_serif_family # custom_family f # map strip_sans_serif pre @
        [family_with_lang f, del_attrib ''name'' c] @ map strip_sans_serif post"
    using emitted_split [OF assms(2) lang, of f post] strip
    by (simp add: children_build_familyset assms(1))
  have kept: "map_of (attrib (del_attrib ''name'' c)) ''name'' = None"
    "map_of (attrib (del_attrib ''name'' c)) ''lang'' = map_of (attrib c) ''lang''"
    by (simp_all add: del_attrib_def AList.delete_conv)
  from flag step out inserted kept show ?thesis
    by (intro conjI)
qed

theorem sans_serif_lang_child_witness:
  "children (build_familyset ''MyFont.ttf'' doc_sans_lang) =
     [sans_serif_family, custom_family ''MyFont.ttf'',
      Element ''family'' [(''name'', ''serif'')] None None [],
      family_with_lang ''MyFont.ttf'',
      Element ''family'' [(''lang'', ''ko'')] None None [],
      Element ''family'' [(''lang'', ''ja'')] None None []] \<and>
   map (\<lambda>e. (tag e, attrib e, length (children e)))
     (drop 2 (children (build_familyset ''MyFont.ttf'' doc_sans_lang))) =
     [(''family'', [(''name'', ''serif'')], 0),
      (''family'', [(''lang'', ''zh-Hans'')], 9),
      (''family'', [(''lang'', ''ko'')], 0),
      (''family'', [(''lang'', ''ja'')], 0)]"
proof -
  have a: "children doc_sans_lang =
      [Element ''family'' [(''name'', ''serif'')] None None []] @
      Element ''family'' [(''name'', ''sans-serif''), (''lang'', ''ko'')] None None [] #
      [Element ''family'' [(''lang'', ''ja'')] None None []]"
    by (simp add: doc_sans_lang_def)
  have b: "\<not> list_ex lang_family [Element ''family'' [(''name'', ''serif'')] None None []]"
    by (simp add: lang_family_def)
  have c: "tag (Element ''family'' [(''name'', ''sans-serif''), (''lang'', ''ko'')] None None []) =
      ''family''"
    and d: "map_of (attrib (Element ''family'' [(''name'', ''sans-serif''), (''lang'', ''ko'')]
      None None [])) ''name'' = Some ''sans-serif''"
    and e: "map_of (attrib (Element ''family'' [(''name'', ''sans-serif''), (''lang'', ''ko'')]
      None None [])) ''lang'' \<noteq> None"
    by simp_all
  from sans_serif_lang_child [OF a b c d e, where f = "''MyFont.ttf''"
      and familyset = sans_serif_family and familyset' = sans_serif_family]
  show ?thesis
    by (simp add: strip_sans_serif_def del_attrib_def custom_family_eq)
qed

text \<open>
  C6, as the code has it: the first child of the output is the fallback family, named
  \<open>sans-serif\<close>, with twelve fonts, one for each weight of 100, 300, 400, 500, 900, 700
  in each style of normal and italic; the text of each is
  \<^verbatim>\<open>EmptyFont-<WeightName><StyleSuffix>.ttf\<close>, but for weight 400 in italic, whose text is
  \<^verbatim>\<open>EmptyFont-Italic.ttf\<close>.
\<close>

theorem fallback_family_faces:
  "children (build_familyset f root) ! 0 = sans_serif_family \<and>
   tag sans_serif_family = ''family'' \<and>
   attrib sans_serif_family = [(''name'', ''sans-serif'')] \<and>
   length (children sans_serif_family) = 12 \<and>
   map (\<lambda>e. (tag e, attrib e)) (children sans_serif_family) =
     map (\<lambda>(w, s). (''font'', [(''weight'', w), (''style'', s)]))
       (List.product [''100'', ''300'', ''400'', ''500'', ''900'', ''700''] [''normal'', ''italic'']) \<and>
   distinct (map attrib (children sans_serif_family)) \<and>
   list_all (\<lambda>e. etext e =
       Some (spec_placeholder (the (map_of (attrib e) ''weight'')) (the (map_of (attrib e) ''style''))))
     (children sans_serif_family)"
  by (simp add: children_build_familyset sans_serif_family_def empty_font_def
      spec_placeholder_def spec_weight_name_def spec_style_suffix_def)

theorem fallback_family_faces_witness:
  "map (\<lambda>e. (the (map_of (attrib e) ''weight''), the (map_of (attrib e) ''style''), the (etext e)))
     (children (children (build_familyset ''MyFont.ttf'' doc_sans) ! 0)) =
   [(''100'', ''normal'', ''EmptyFont-Thin.ttf''), (''100'', ''italic'', ''EmptyFont-ThinItalic.ttf''),
    (''300'', ''normal'', ''EmptyFont-Light.ttf''), (''300'', ''italic'', ''EmptyFont-LightItalic.ttf''),
    (''400'', ''normal'', ''EmptyFont-Regular.ttf''), (''400'', ''italic'', ''EmptyFont-Italic.ttf''),
    (''500'', ''normal'', ''EmptyFont-Medium.ttf''), (''500'', ''italic'', ''EmptyFont-MediumItalic.ttf''),
    (''900'', ''normal'', ''EmptyFont-Black.ttf''), (''900'', ''italic'', ''EmptyFont-BlackItalic.ttf''),
    (''700'', ''normal'', ''EmptyFont-Bold.ttf''), (''700'', ''italic'', ''EmptyFont-BoldItalic.ttf'')]"
  using fallback_family_faces [of "''MyFont.ttf''" doc_sans]
  by (simp add: sans_serif_family_def empty_font_def)

text \<open>
  No weight names and style suffixes give all twelve texts: the files of weight 100 fix
  the italic suffix to six characters more than the normal one, the files of weight 400
  (\<^verbatim>\<open>EmptyFont-Regular.ttf\<close> and \<^verbatim>\<open>EmptyFont-Italic.ttf\<close>) to one character less.
\<close>

theorem fallback_family_faces_counterexample:
  "etext (children sans_serif_family ! 4) = Some ''EmptyFont-Regular.ttf'' \<and>
   etext (children sans_serif_family ! 5) = Some ''EmptyFont-Italic.ttf'' \<and>
   \<not> (\<exists>wn ss. list_all (\<lambda>e. etext e =
          Some (''EmptyFont-'' @ wn (the (map_of (attrib e) ''weight'')) @
                ss (the (map_of (attrib e) ''style'')) @ ''.ttf''))
        (children sans_serif_family))"
proof -
  have "False"
    if all: "list_all (\<lambda>e. etext e =
          Some (''EmptyFont-'' @ wn (the (map_of (attrib e) ''weight'')) @
                ss (the (map_of (attrib e) ''style'')) @ ''.ttf''))
        (children sans_serif_family)" for wn ss :: "string \<Rightarrow> string"
  proof -
    from all have
      a: "wn ''100'' @ ss ''normal'' @ ''.ttf'' = ''Thin.ttf''" and
      b: "wn ''100'' @ ss ''italic'' @ ''.ttf'' = ''ThinItalic.ttf''" and
      c: "wn ''400'' @ ss ''normal'' @ ''.ttf'' = ''Regular.ttf''" and
      d: "wn ''400'' @ ss ''italic'' @ ''.ttf'' = ''Italic.ttf''"
      by (simp_all add: sans_serif_family_def empty_font_def eq_commute)
    from a have la: "length (wn ''100'') + length (ss ''normal'') = 4"
      using arg_cong [OF a, of length] by simp
    from b have lb: "length (wn ''100'') + length (ss ''italic'') = 10"
      using arg_cong [OF b, of length] by simp
    from c have lc: "length (wn ''400'') + length (ss ''normal'') = 7"
      using arg_cong [OF c, of length] by simp
    from d have ld: "length (wn ''400'') + length (ss ''italic'') = 6"
      using arg_cong [OF d, of length] by simp
    from la lb lc ld show False by arith
  qed
  then have none: "\<not> (\<exists>wn ss. list_all (\<lambda>e. etext e =
          Some (''EmptyFont-'' @ wn (the (map_of (attrib e) ''weight'')) @
                ss (the (map_of (attrib e) ''style'')) @ ''.ttf''))
        (children sans_serif_family))"
    by blast
  have regular: "etext (children sans_serif_family ! 4) = Some ''EmptyFont-Regular.ttf''"
    by (simp add: sans_serif_family_def empty_font_def)
  have italic: "etext (children sans_serif_family ! 5) = Some ''EmptyFont-Italic.ttf''"
    by (simp add: sans_serif_family_def empty_font_def)
  from regular italic none show ?thesis
    by (intro conjI)
qed

section \<open>Properties of the packaging\<close>

text \<open>
  C8, as the code has it: the check of the font path is \<^verbatim>\<open>main\<close>'s and it is
  \<^verbatim>\<open>os.path.exists\<close>. When the font argument is empty or \<^verbatim>\<open>os.path.exists\<close> fails on it,
  \<^verbatim>\<open>main\<close> ends with \<^verbatim>\<open>SystemExit(-1)\<close> after printing its messages and nothing else: no
  staging directory has been asked for, no file operation attempted.
\<close>

theorem missing_font_exits_before_staging:
  assumes "arg_font config = [] \<or> \<not> path_exists env (arg_font config)"
  shows "fst (main env config []) = Inl (SystemExit (- 1)) \<and>
    \<not> staging_started (snd (main env config [])) \<and>
    snd (main env config []) =
      (if path_exists env
            (if truthy (arg_font_config config) then the (arg_font_config config)
             else join (dirname (this_file env)) [''template'', ''system'', ''etc'', ''fonts.xml''])
       then [] else [(Print ''Font config file not exists!'', None)]) @
      [(Print ''No font file set or font file not exists!'', None)]"
  using assms
  by (auto simp add: main_def Let_def bind_io_def say_def return_io_def raise_io_def
      staging_started_def)

theorem missing_font_exits_before_staging_witness:
  "fst (main env_ok \<lparr> arg_font_config = None, arg_font = ''/sdcard/Missing.ttf'',
                       arg_font_name = None \<rparr> []) = Inl (SystemExit (- 1)) \<and>
   snd (main env_ok \<lparr> arg_font_config = None, arg_font = ''/sdcard/Missing.ttf'',
                       arg_font_name = None \<rparr> []) =
     [(Print ''No font file set or font file not exists!'', None)]"
proof -
  have miss: "arg_font \<lparr> arg_font_config = None, arg_font = ''/sdcard/Missing.ttf'',
                 arg_font_name = None \<rparr> = [] \<or>
      \<not> path_exists env_ok (arg_font \<lparr> arg_font_config = None, arg_font = ''/sdcard/Missing.ttf'',
                 arg_font_name = None \<rparr>)"
    by (simp add: env_ok_def)
  have conf: "path_exists env_ok
      (join (dirname (this_file env_ok)) [''template'', ''system'', ''etc'', ''fonts.xml''])"
    by (simp add: env_ok_def dirname_def rfind_def join_def join_step_def)
  from missing_font_exits_before_staging [OF miss] conf show ?thesis
    by (simp add: truthy_def)
qed

lemma archive_written_append:
  "archive_written (tr @ tr') = (archive_written tr \<or> archive_written tr')"
  by (simp add: archive_written_def)

lemma perform_then:
  "bind_io (perform env ev) k tr =
     (case raises env tr ev of
        Some e \<Rightarrow> (Inl e, tr @ [(ev, Some e)])
      | None \<Rightarrow> k () (tr @ [(ev, None)]))"
  by (simp add: bind_io_def perform_def split: option.splits)

lemma parse_font_xml_then:
  "bind_io (parse_font_xml env self) k tr =
     (case parse env (base_font_xml_path self) of
        Inl e \<Rightarrow> (Inl e, tr @ [(Parse (base_font_xml_path self), Some e)])
      | Inr root \<Rightarrow>
          k (pretty env (build_familyset (font_file_name self) root))
            (tr @ [(Parse (base_font_xml_path self), None)]))"
  by (simp add: bind_io_def parse_font_xml_def split: sum.splits)

lemma with_temporary_directory_eq:
  "with_temporary_directory env body tr =
     (case raises env tr (TemporaryDirectory (mkdtemp env)) of
        Some e \<Rightarrow> (Inl e, tr @ [(TemporaryDirectory (mkdtemp env), Some e)])
      | None \<Rightarrow>
          (fst (body (mkdtemp env) (tr @ [(TemporaryDirectory (mkdtemp env), None)])),
           snd (body (mkdtemp env) (tr @ [(TemporaryDirectory (mkdtemp env), None)])) @
             [(Cleanup (mkdtemp env), None)]))"
  by (simp add: with_temporary_directory_def perform_def split: option.splits prod.splits)

lemma write_props_run:
  "write_props env file kwargs tr =
     (Inr (), tr @ map (\<lambda>(k, v). (Write file (k @ ''='' @ v @ ''\<newline>''), None)) kwargs) \<or>
   (\<exists>e ws. write_props env file kwargs tr = (Inl e, tr @ ws) \<and> \<not> archive_written ws)"
proof (induction kwargs arbitrary: tr)
  case Nil
  show ?case by (simp add: return_io_def)
next
  case (Cons kv kwargs)
  obtain k v where kv: "kv = (k, v)" by (cases kv)
  let ?ev = "Write file (k @ ''='' @ v @ ''\<newline>'')"
  show ?case
  proof (cases "raises env tr ?ev")
    case (Some e)
    then show ?thesis
      by (simp add: kv perform_then archive_written_def)
  next
    case None
    from Cons.IH [of "tr @ [(?ev, None)]"] show ?thesis
    proof
      assume "write_props env file kwargs (tr @ [(?ev, None)]) =
        (Inr (), (tr @ [(?ev, None)]) @
           map (\<lambda>(k, v). (Write file (k @ ''='' @ v @ ''\<newline>''), None)) kwargs)"
      then show ?thesis using None by (simp add: kv perform_then)
    next
      assume "\<exists>e ws. write_props env file kwargs (tr @ [(?ev, None)]) =
        (Inl e, (tr @ [(?ev, None)]) @ ws) \<and> \<not> archive_written ws"
      then obtain e ws where
        run: "write_props env file kwargs (tr @ [(?ev, None)]) = (Inl e, (tr @ [(?ev, None)]) @ ws)"
        and ws: "\<not> archive_written ws" by blast
      have "\<not> archive_written ((?ev, None) # ws)"
        using ws by (simp add: archive_written_def)
      then show ?thesis using None run by (auto simp add: kv perform_then)
    qed
  qed
qed

lemma archive_written_Nil: "archive_written [] = False"
  by (simp add: archive_written_def)

lemma archive_written_Cons:
  "archive_written ((ev, r) # tr) =
     ((case ev of MakeArchive b d \<Rightarrow> True | _ \<Rightarrow> False) \<or> archive_written tr)"
  by (simp add: archive_written_def)

lemma archive_written_writes:
  "\<not> archive_written (map (\<lambda>(k, v). (Write file (line k v), None)) kwargs)"
  by (induction kwargs) (auto simp add: archive_written_def)

lemma package_module_run:
  "(\<exists>root out. parse env (base_font_xml_path self) = Inr root \<and>
      package_module env self kwargs [] =
        (case out of None \<Rightarrow> Inr (join (gettempdir env) [font_name self] @ ''.zip'')
         | Some e \<Rightarrow> Inl e,
         map (\<lambda>ev. (ev, None)) (staging_steps env self kwargs root) @
         [(MakeArchive (join (gettempdir env) [font_name self])
             (join (mkdtemp env) [basename (template_path self)]), out),
          (Cleanup (mkdtemp env), None)])) \<or>
   ((\<exists>e. fst (package_module env self kwargs []) = Inl e) \<and>
    \<not> archive_written (snd (package_module env self kwargs [])))"
proof -
  let ?cwd = "join (mkdtemp env) [basename (template_path self)]"
  let ?tr = "[(TemporaryDirectory (mkdtemp env), None),
     (Copytree (template_path self) ?cwd, None),
     (Copy (font_path self) (join ?cwd [''system'', ''fonts'']), None),
     (Open (join ?cwd [''module.prop'']), None)]"
  from write_props_run [of env "join ?cwd [''module.prop'']" kwargs ?tr]
  show ?thesis
  proof
    assume "write_props env (join ?cwd [''module.prop'']) kwargs ?tr =
      (Inr (), ?tr @ map (\<lambda>(k, v). (Write (join ?cwd [''module.prop''])
          (k @ ''='' @ v @ ''\<newline>''), None)) kwargs)"
    then have w: "\<And>k. bind_io (write_props env (join ?cwd [''module.prop'']) kwargs) k ?tr =
      k () (?tr @ map (\<lambda>(k, v). (Write (join ?cwd [''module.prop''])
          (k @ ''='' @ v @ ''\<newline>''), None)) kwargs)"
      by (simp add: bind_io_def)
    show ?thesis
      by (auto simp add: package_module_def with_temporary_directory_eq perform_then
          parse_font_xml_then w return_io_def Let_def staging_steps_def archive_written_append
          archive_written_Nil archive_written_Cons archive_written_writes
          split: option.splits sum.splits)
  next
    assume "\<exists>e ws. write_props env (join ?cwd [''module.prop'']) kwargs ?tr = (Inl e, ?tr @ ws) \<and>
      \<not> archive_written ws"
    then obtain e ws where
      run: "write_props env (join ?cwd [''module.prop'']) kwargs ?tr = (Inl e, ?tr @ ws)"
      and ws: "\<not> archive_written ws" by blast
    have w: "\<And>k. bind_io (write_props env (join ?cwd [''module.prop'']) kwargs) k ?tr =
      (Inl e, ?tr @ ws)"
      using run by (simp add: bind_io_def)
    show ?thesis
      using ws
      by (simp add: package_module_def with_temporary_directory_eq perform_then
          w Let_def archive_written_append archive_written_Nil archive_written_Cons
          split: option.splits)
  qed
qed

lemma write_props_no_raise:
  "\<forall>tr ev. raises env tr ev = None \<Longrightarrow>
   write_props env file kwargs tr =
     (Inr (), tr @ map (\<lambda>(k, v). (Write file (k @ ''='' @ v @ ''\<newline>''), None)) kwargs)"
  by (induction kwargs arbitrary: tr) (auto simp add: return_io_def perform_then)

lemma package_module_ParseError:
  assumes "parse env (base_font_xml_path self) = Inl ParseError"
    and "\<forall>tr ev. raises env tr ev = None"
  shows "fst (package_module env self kwargs []) = Inl ParseError"
proof -
  have w: "\<And>k tr. bind_io (write_props env
        (join (join (mkdtemp env) [basename (template_path self)]) [''module.prop'']) kwargs) k tr =
      k () (tr @ map (\<lambda>(k, v). (Write
        (join (join (mkdtemp env) [basename (template_path self)]) [''module.prop''])
        (k @ ''='' @ v @ ''\<newline>''), None)) kwargs)"
    using write_props_no_raise [OF assms(2)] by (simp add: bind_io_def)
  show ?thesis
    using assms
    by (simp add: package_module_def with_temporary_directory_eq perform_then
        parse_font_xml_then w Let_def)
qed

text \<open>
  C9: when the base document does not parse, \<^verbatim>\<open>package_module\<close> ends with an exception
  (the \<open>ParseError\<close> itself when no operation raised before) and no archive has been
  asked for; and whenever an archive is asked for, the base document has parsed and
  everything before the archive is the complete staging, each operation having returned:
  the template copy, the font copy, \<^verbatim>\<open>module.prop\<close> with all its lines and \<^verbatim>\<open>fonts.xml\<close>
  with the transformed document.
\<close>

theorem archive_only_after_staging:
  "(parse env (base_font_xml_path self) = Inl ParseError \<longrightarrow>
      (\<exists>e. fst (package_module env self kwargs []) = Inl e) \<and>
      \<not> archive_written (snd (package_module env self kwargs [])) \<and>
      ((\<forall>tr ev. raises env tr ev = None) \<longrightarrow>
         fst (package_module env self kwargs []) = Inl ParseError)) \<and>
   (archive_written (snd (package_module env self kwargs [])) \<longrightarrow>
      (\<exists>root out. parse env (base_font_xml_path self) = Inr root \<and>
         snd (package_module env self kwargs []) =
           map (\<lambda>ev. (ev, None)) (staging_steps env self kwargs root) @
           [(MakeArchive (join (gettempdir env) [font_name self])
               (join (mkdtemp env) [basename (template_path self)]), out),
            (Cleanup (mkdtemp env), None)]))"
proof (intro conjI impI)
  assume bad: "parse env (base_font_xml_path self) = Inl ParseError"
  from package_module_run [of env self kwargs] bad
  show "\<exists>e. fst (package_module env self kwargs []) = Inl e"
    and "\<not> archive_written (snd (package_module env self kwargs []))"
    by auto
  assume "\<forall>tr ev. raises env tr ev = None"
  with bad show "fst (package_module env self kwargs []) = Inl ParseError"
    by (rule package_module_ParseError)
next
  assume "archive_written (snd (package_module env self kwargs []))"
  with package_module_run [of env self kwargs]
  show "\<exists>root out. parse env (base_font_xml_path self) = Inr root \<and>
         snd (package_module env self kwargs []) =
           map (\<lambda>ev. (ev, None)) (staging_steps env self kwargs root) @
           [(MakeArchive (join (gettempdir env) [font_name self])
               (join (mkdtemp env) [basename (template_path self)]), out),
            (Cleanup (mkdtemp env), None)]"
    by auto
qed

lemma package_module_env_ok:
  "package_module env_ok
     (init ''/opt/module/template'' ''/sdcard/MyFont.ttf''
        ''/opt/module/template/system/etc/fonts.xml'' ''MyFont'')
     [(''id'', ''MyFont'')] [] =
   (Inr ''/tmp/MyFont.zip'',
    [(TemporaryDirectory ''/tmp/tmpk3x9'', None),
     (Copytree ''/opt/module/template'' ''/tmp/tmpk3x9/template'', None),
     (Copy ''/sdcard/MyFont.ttf'' ''/tmp/tmpk3x9/template/system/fonts'', None),
     (Open ''/tmp/tmpk3x9/template/module.prop'', None),
     (Write ''/tmp/tmpk3x9/template/module.prop'' ''id=MyFont\<newline>'', None),
     (Open ''/tmp/tmpk3x9/template/system/etc/fonts.xml'', None),
     (Parse ''/opt/module/template/system/etc/fonts.xml'', None),
     (Write ''/tmp/tmpk3x9/template/system/etc/fonts.xml'' ''familyset'', None),
     (MakeArchive ''/tmp/MyFont'' ''/tmp/tmpk3x9/template'', None),
     (Cleanup ''/tmp/tmpk3x9'', None)])"
proof -
  have cwd: "join ''/tmp/tmpk3x9'' [basename ''/opt/module/template''] = ''/tmp/tmpk3x9/template''"
    by (simp add: join_def join_step_def basename_def rfind_def)
  have paths: "join ''/tmp/tmpk3x9/template'' [''system'', ''fonts''] = ''/tmp/tmpk3x9/template/system/fonts''"
    "join ''/tmp/tmpk3x9/template'' [''module.prop''] = ''/tmp/tmpk3x9/template/module.prop''"
    "join ''/tmp/tmpk3x9/template'' [''system'', ''etc'', ''fonts.xml''] =
       ''/tmp/tmpk3x9/template/system/etc/fonts.xml''"
    "join ''/tmp'' [''MyFont''] = ''/tmp/MyFont''"
    by (simp_all add: join_def join_step_def)
  have root: "tag (build_familyset f doc_sans_ja) = ''familyset''" for f
    by (simp add: build_familyset_def Let_def foldl_visit_child append_child_def)
  show ?thesis
    by (simp add: package_module_def with_temporary_directory_eq parse_font_xml_def
        return_io_def Let_def env_ok_def init_def cwd paths root bind_io_def perform_def)
qed

theorem archive_only_after_staging_witness:
  "fst (package_module env_malformed (init ''/opt/module/template'' ''/sdcard/MyFont.ttf''
        ''/opt/module/template/system/etc/fonts.xml'' ''MyFont'') [(''id'', ''MyFont'')] []) = Inl ParseError \<and>
   \<not> archive_written (snd (package_module env_malformed (init ''/opt/module/template'' ''/sdcard/MyFont.ttf''
        ''/opt/module/template/system/etc/fonts.xml'' ''MyFont'') [(''id'', ''MyFont'')] [])) \<and>
   archive_written (snd (package_module env_ok (init ''/opt/module/template'' ''/sdcard/MyFont.ttf''
        ''/opt/module/template/system/etc/fonts.xml'' ''MyFont'') [(''id'', ''MyFont'')] [])) \<and>
   take 8 (snd (package_module env_ok (init ''/opt/module/template'' ''/sdcard/MyFont.ttf''
        ''/opt/module/template/system/etc/fonts.xml'' ''MyFont'') [(''id'', ''MyFont'')] [])) =
     map (\<lambda>ev. (ev, None)) (staging_steps env_ok (init ''/opt/module/template'' ''/sdcard/MyFont.ttf''
        ''/opt/module/template/system/etc/fonts.xml'' ''MyFont'') [(''id'', ''MyFont'')] doc_sans_ja)"
proof -
  let ?p = "(init ''/opt/module/template'' ''/sdcard/MyFont.ttf''
        ''/opt/module/template/system/etc/fonts.xml'' ''MyFont'')"
  have bad: "parse env_malformed (base_font_xml_path ?p) = Inl ParseError"
    and quiet: "\<forall>tr ev. raises env_malformed tr ev = None"
    by (simp_all add: env_malformed_def env_ok_def)
  have ok: "parse env_ok (base_font_xml_path ?p) = Inr doc_sans_ja"
    by (simp add: env_ok_def)
  have written: "archive_written (snd (package_module env_ok ?p [(''id'', ''MyFont'')] []))"
    by (simp add: package_module_env_ok archive_written_def)
  have len: "length (staging_steps env_ok ?p [(''id'', ''MyFont'')] doc_sans_ja) = 8"
    by (simp add: staging_steps_def Let_def)
  from archive_only_after_staging [of env_malformed ?p "[(''id'', ''MyFont'')]"] bad quiet
  have 1: "fst (package_module env_malformed ?p [(''id'', ''MyFont'')] []) = Inl ParseError"
    and 2: "\<not> archive_written (snd (package_module env_malformed ?p [(''id'', ''MyFont'')] []))"
    by blast+
  from archive_only_after_staging [of env_ok ?p "[(''id'', ''MyFont'')]"] written ok
  obtain out where "snd (package_module env_ok ?p [(''id'', ''MyFont'')] []) =
      map (\<lambda>ev. (ev, None)) (staging_steps env_ok ?p [(''id'', ''MyFont'')] doc_sans_ja) @
      [(MakeArchive (join (gettempdir env_ok) [font_name ?p])
          (join (mkdtemp env_ok) [basename (template_path ?p)]), out),
       (Cleanup (mkdtemp env_ok), None)]"
    by auto
  then have 3: "take 8 (snd (package_module env_ok ?p [(''id'', ''MyFont'')] [])) =
      map (\<lambda>ev. (ev, None)) (staging_steps env_ok ?p [(''id'', ''MyFont'')] doc_sans_ja)"
    using len by simp
  from 1 2 written 3 show ?thesis by (intro conjI)
qed

lemma main_env_ok:
  "main env_ok \<lparr> arg_font_config = None, arg_font = ''/sdcard/MyFont.ttf'', arg_font_name = None \<rparr> [] =
   (Inr (),
    [(GetLogin, None),
     (TemporaryDirectory ''/tmp/tmpk3x9'', None),
     (Copytree ''/opt/module/template'' ''/tmp/tmpk3x9/template'', None),
     (Copy ''/sdcard/MyFont.ttf'' ''/tmp/tmpk3x9/template/system/fonts'', None),
     (Open ''/tmp/tmpk3x9/template/module.prop'', None),
     (Write ''/tmp/tmpk3x9/template/module.prop'' ''id=MyFont\<newline>'', None),
     (Write ''/tmp/tmpk3x9/template/module.prop'' ''name=MyFont\<newline>'', None),
     (Write ''/tmp/tmpk3x9/template/module.prop'' ''version=1.0\<newline>'', None),
     (Write ''/tmp/tmpk3x9/template/module.prop'' ''versionCode=1\<newline>'', None),
     (Write ''/tmp/tmpk3x9/template/module.prop'' ''author=user\<newline>'', None),
     (Write ''/tmp/tmpk3x9/template/module.prop''
        ''description=Replace default font with MyFont\<newline>'', None),
     (Open ''/tmp/tmpk3x9/template/system/etc/fonts.xml'', None),
     (Parse ''/opt/module/template/system/etc/fonts.xml'', None),
     (Write ''/tmp/tmpk3x9/template/system/etc/fonts.xml'' ''familyset'', None),
     (MakeArchive ''/tmp/MyFont'' ''/tmp/tmpk3x9/template'', None),
     (Cleanup ''/tmp/tmpk3x9'', None),
     (Copy ''/tmp/MyFont.zip'' ''/opt/module'', None)])"
proof -
  have cwd: "dirname ''/opt/module/package.py'' = ''/opt/module''"
    by (simp add: dirname_def rfind_def)
  have name: "splitext_root (basename ''/sdcard/MyFont.ttf'') = ''MyFont''"
    by (simp add: splitext_root_def basename_def rfind_def)
  have paths: "join ''/opt/module'' [''template'', ''system'', ''etc'', ''fonts.xml''] =
      ''/opt/module/template/system/etc/fonts.xml''"
    "join ''/opt/module'' [''template''] = ''/opt/module/template''"
    "join ''/tmp/tmpk3x9'' [basename ''/opt/module/template''] = ''/tmp/tmpk3x9/template''"
    "join ''/tmp/tmpk3x9/template'' [''system'', ''fonts''] = ''/tmp/tmpk3x9/template/system/fonts''"
    "join ''/tmp/tmpk3x9/template'' [''module.prop''] = ''/tmp/tmpk3x9/template/module.prop''"
    "join ''/tmp/tmpk3x9/template'' [''system'', ''etc'', ''fonts.xml''] =
       ''/tmp/tmpk3x9/template/system/etc/fonts.xml''"
    "join ''/tmp'' [''MyFont''] = ''/tmp/MyFont''"
    by (simp_all add: join_def join_step_def basename_def rfind_def)
  have root: "tag (build_familyset f doc_sans_ja) = ''familyset''" for f
    by (simp add: build_familyset_def Let_def foldl_visit_child append_child_def)
  show ?thesis
    by (simp add: main_def truthy_def package_module_def with_temporary_directory_eq
        parse_font_xml_def return_io_def Let_def env_ok_def init_def cwd name paths root
        bind_io_def perform_def)
qed

text \<open>
  The check of the font path is \<^verbatim>\<open>main\<close>'s: \<^verbatim>\<open>package_module\<close> itself asks for the
  staging directory and copies the template before the copy of a missing font raises.
\<close>

lemma package_module_copy_raises:
  assumes "raises env [] (TemporaryDirectory (mkdtemp env)) = None"
    and "raises env [(TemporaryDirectory (mkdtemp env), None)]
           (Copytree (template_path self) (join (mkdtemp env) [basename (template_path self)])) = None"
    and "raises env [(TemporaryDirectory (mkdtemp env), None),
            (Copytree (template_path self) (join (mkdtemp env) [basename (template_path self)]), None)]
           (Copy (font_path self)
              (join (join (mkdtemp env) [basename (template_path self)]) [''system'', ''fonts''])) =
         Some e"
  shows "package_module env self kwargs [] =
     (Inl e,
      [(TemporaryDirectory (mkdtemp env), None),
       (Copytree (template_path self) (join (mkdtemp env) [basename (template_path self)]), None),
       (Copy (font_path self)
          (join (join (mkdtemp env) [basename (template_path self)]) [''system'', ''fonts'']), Some e),
       (Cleanup (mkdtemp env), None)])"
  using assms
  by (simp add: package_module_def with_temporary_directory_eq perform_then Let_def)

text \<open>
  Packaging itself does not fail before staging: \<^verbatim>\<open>package_module\<close> given a font path
  that does not exist asks for the staging directory and copies the template, and only
  then the copy of the font raises; and \<^verbatim>\<open>main\<close> given a path that exists without being
  a file goes on to the same staging.
\<close>

theorem missing_font_exits_before_staging_counterexample:
  "\<not> path_exists env_missing_font ''/sdcard/Missing.ttf'' \<and>
   package_module env_missing_font
     (init ''/opt/module/template'' ''/sdcard/Missing.ttf''
        ''/opt/module/template/system/etc/fonts.xml'' ''Missing'')
     [(''id'', ''Missing'')] [] =
   (Inl OSError,
    [(TemporaryDirectory ''/tmp/tmpk3x9'', None),
     (Copytree ''/opt/module/template'' ''/tmp/tmpk3x9/template'', None),
     (Copy ''/sdcard/Missing.ttf'' ''/tmp/tmpk3x9/template/system/fonts'', Some OSError),
     (Cleanup ''/tmp/tmpk3x9'', None)]) \<and>
   staging_started (snd (package_module env_missing_font
     (init ''/opt/module/template'' ''/sdcard/Missing.ttf''
        ''/opt/module/template/system/etc/fonts.xml'' ''Missing'')
     [(''id'', ''Missing'')] [])) \<and>
   main env_font_directory
     \<lparr> arg_font_config = None, arg_font = ''/sdcard/fonts'', arg_font_name = None \<rparr> [] =
   (Inl OSError,
    [(GetLogin, None),
     (TemporaryDirectory ''/tmp/tmpk3x9'', None),
     (Copytree ''/opt/module/template'' ''/tmp/tmpk3x9/template'', None),
     (Copy ''/sdcard/fonts'' ''/tmp/tmpk3x9/template/system/fonts'', Some OSError),
     (Cleanup ''/tmp/tmpk3x9'', None)]) \<and>
   staging_started (snd (main env_font_directory
     \<lparr> arg_font_config = None, arg_font = ''/sdcard/fonts'', arg_font_name = None \<rparr> []))"
proof -
  have cwd: "dirname ''/opt/module/package.py'' = ''/opt/module''"
    by (simp add: dirname_def rfind_def)
  have name: "splitext_root (basename ''/sdcard/fonts'') = ''fonts''"
    by (simp add: splitext_root_def basename_def rfind_def)
  have paths: "join ''/opt/module'' [''template'', ''system'', ''etc'', ''fonts.xml''] =
      ''/opt/module/template/system/etc/fonts.xml''"
    "join ''/opt/module'' [''template''] = ''/opt/module/template''"
    "join ''/tmp/tmpk3x9'' [basename ''/opt/module/template''] = ''/tmp/tmpk3x9/template''"
    "join ''/tmp/tmpk3x9/template'' [''system'', ''fonts''] = ''/tmp/tmpk3x9/template/system/fonts''"
    by (simp_all add: join_def join_step_def basename_def rfind_def)
  have missing: "\<not> path_exists env_missing_font ''/sdcard/Missing.ttf''"
    by (simp add: env_missing_font_def env_ok_def)
  have direct: "package_module env_missing_font
     (init ''/opt/module/template'' ''/sdcard/Missing.ttf''
        ''/opt/module/template/system/etc/fonts.xml'' ''Missing'')
     [(''id'', ''Missing'')] [] =
   (Inl OSError,
    [(TemporaryDirectory ''/tmp/tmpk3x9'', None),
     (Copytree ''/opt/module/template'' ''/tmp/tmpk3x9/template'', None),
     (Copy ''/sdcard/Missing.ttf'' ''/tmp/tmpk3x9/template/system/fonts'', Some OSError),
     (Cleanup ''/tmp/tmpk3x9'', None)])"
    by (simp add: package_module_def with_temporary_directory_eq Let_def env_missing_font_def
        env_ok_def init_def paths bind_io_def perform_def)
  have driver: "main env_font_directory
     \<lparr> arg_font_config = None, arg_font = ''/sdcard/fonts'', arg_font_name = None \<rparr> [] =
   (Inl OSError,
    [(GetLogin, None),
     (TemporaryDirectory ''/tmp/tmpk3x9'', None),
     (Copytree ''/opt/module/template'' ''/tmp/tmpk3x9/template'', None),
     (Copy ''/sdcard/fonts'' ''/tmp/tmpk3x9/template/system/fonts'', Some OSError),
     (Cleanup ''/tmp/tmpk3x9'', None)])"
    by (simp add: main_def truthy_def package_module_def with_temporary_directory_eq Let_def
        env_font_directory_def env_ok_def init_def cwd name paths bind_io_def perform_def
        return_io_def)
  have started1: "staging_started (snd (package_module env_missing_font
     (init ''/opt/module/template'' ''/sdcard/Missing.ttf''
        ''/opt/module/template/system/etc/fonts.xml'' ''Missing'')
     [(''id'', ''Missing'')] []))"
    unfolding direct by (simp add: staging_started_def)
  have started2: "staging_started (snd (main env_font_directory
     \<lparr> arg_font_config = None, arg_font = ''/sdcard/fonts'', arg_font_name = None \<rparr> []))"
    unfolding driver by (simp add: staging_started_def)
  from missing direct started1 driver started2 show ?thesis
    by (intro conjI)
qed

end
